theory Spec2Isabelle
  imports Main
begin

section \<open>JavaScript values used by the authentication client\<close>

text \<open>
  A value of TypeScript type \<open>string\<close> that may also be \<open>undefined\<close> at run time is a
  \<open>string option\<close>, with \<open>None\<close> for \<open>undefined\<close>. JavaScript's conversion to boolean
  (\<open>if (token)\<close>, \<open>a || b\<close>, \<open>!x\<close>) reads \<open>undefined\<close> and the empty string as false and
  every other string as true.
\<close>

definition truthy :: "string option \<Rightarrow> bool" where
  "truthy v = (case v of None \<Rightarrow> False | Some s \<Rightarrow> s \<noteq> [])"

text \<open>
  An optional boolean property (\<open>permanent\<close>, \<open>remember\<close>): \<open>None\<close> when the property is
  not given, which a condition reads as false.
\<close>

definition truthy_bool :: "bool option \<Rightarrow> bool" where
  "truthy_bool v = (case v of None \<Rightarrow> False | Some b \<Rightarrow> b)"

section \<open>Token storage\<close>

text \<open>
  Modelled from the spec: the storage backend \<open>IStorage<string>\<close> (its declaration and
  its implementations are not part of the sources). It is a key/value store of string
  tokens with \<open>get(label) -> string|absent\<close>, \<open>set(label, value)\<close> and \<open>delete(label)\<close>,
  where deleting an absent label is no error.
\<close>

type_synonym IStorage = "string \<rightharpoonup> string"

definition storage_get :: "IStorage \<Rightarrow> string \<Rightarrow> string option" where
  "storage_get st key = st key"

definition storage_set :: "IStorage \<Rightarrow> string \<Rightarrow> string \<Rightarrow> IStorage" where
  "storage_set st key v = st(key \<mapsto> v)"

definition storage_delete :: "IStorage \<Rightarrow> string \<Rightarrow> IStorage" where
  "storage_delete st key = st(key := None)"

section \<open>CombinedAuthTokenContext\<close>

text \<open>
  The class holds the durable store (\<open>storage\<close>), the ephemeral store (\<open>tempStorage\<close>),
  two independent instances, and the label under which the token is kept in both.
\<close>

record CombinedAuthTokenContext =
  storage :: IStorage
  tempStorage :: IStorage
  label :: string

text \<open>
  Modelled from the spec: \<open>ICombinedTokenContextStoreOptions\<close> (declared in
  \<open>./definitions\<close>, which is not part of the sources): the store options \<open>{permanent}\<close>.
  The property is kept optional, so that an options object without it is covered.
\<close>

record ICombinedTokenContextStoreOptions =
  permanent :: "bool option"

text \<open>\<open>get()\<close>: \<open>tempToken || permToken\<close>.\<close>

definition get :: "CombinedAuthTokenContext \<Rightarrow> string option" where
  "get ctx =
     (let permToken = storage_get (storage ctx) (label ctx);
          tempToken = storage_get (tempStorage ctx) (label ctx)
      in if truthy tempToken then tempToken else permToken)"

text \<open>
  \<open>store(token, options = {'permanent': true})\<close>: the second argument is \<open>None\<close> when the
  caller leaves it out, and the default object is used then.
\<close>

definition store ::
  "string \<Rightarrow> ICombinedTokenContextStoreOptions option \<Rightarrow> CombinedAuthTokenContext
     \<Rightarrow> CombinedAuthTokenContext" where
  "store token options ctx =
     (let opts = (case options of None \<Rightarrow> \<lparr>permanent = Some True\<rparr> | Some given \<Rightarrow> given)
      in if truthy_bool (permanent opts)
         then ctx\<lparr>storage := storage_set (storage ctx) (label ctx) token\<rparr>
         else ctx\<lparr>tempStorage := storage_set (tempStorage ctx) (label ctx) token\<rparr>)"

definition delete :: "CombinedAuthTokenContext \<Rightarrow> CombinedAuthTokenContext" where
  "delete ctx =
     ctx\<lparr>storage := storage_delete (storage ctx) (label ctx),
         tempStorage := storage_delete (tempStorage ctx) (label ctx)\<rparr>"

text \<open>A context over two empty stores, and one whose ephemeral tier already holds a token.\<close>

definition fresh_context :: "string \<Rightarrow> CombinedAuthTokenContext" where
  "fresh_context l = \<lparr>storage = Map.empty, tempStorage = Map.empty, label = l\<rparr>"

definition session_context :: CombinedAuthTokenContext where
  "session_context = store ''E'' (Some \<lparr>permanent = Some False\<rparr>) (fresh_context ''auth'')"

definition blank_session_context :: CombinedAuthTokenContext where
  "blank_session_context =
     store [] (Some \<lparr>permanent = Some False\<rparr>)
       (store ''T1'' (Some \<lparr>permanent = Some True\<rparr>) (fresh_context ''auth''))"

section \<open>Responses, errors and promises\<close>

text \<open>
  Modelled from the spec: the shape of an HTTP response (the client and its response
  type are declared outside the sources). A login response carries \<open>body.data.token\<close>,
  the OAuth initiation \<open>body.data.url\<close>, a signup failure \<open>body.error.details[]\<close>, each
  entry with \<open>error_type\<close> and \<open>parameter\<close>. Every property is optional: \<open>None\<close> is a
  property that is \<open>undefined\<close>, so reading a property of it throws a TypeError.
\<close>

record error_detail =
  error_type :: "string option"
  parameter :: "string option"

record response_error =
  error_details :: "error_detail list option"

record response_data =
  data_token :: "string option"
  data_url :: "string option"

record response_body =
  body_data :: "response_data option"
  body_error :: "response_error option"

record response =
  res_body :: "response_body option"

text \<open>
  The errors of the module: \<open>new Error(message)\<close>, the TypeError of the runtime when a
  property of \<open>undefined\<close> is read, the error object the HTTP client hands to the
  completion callback (its \<open>response\<close> property may be missing), and
  \<open>new DetailedError(message, details)\<close>.
\<close>

datatype js_error =
    Error string
  | TypeError
  | TransportError "response option"
  | DetailedError string "string list"

text \<open>
  Modelled from the spec: \<open>DeferredPromise\<close> (from \<open>./promise\<close>, not part of the sources)
  wraps a promise, which is pending, or settled once as resolved or rejected.
\<close>

datatype 'a promise = Pending | Resolved 'a | Rejected js_error

section \<open>Auth\<close>

text \<open>
  Modelled from the spec: \<open>AuthModuleId\<close>, \<open>LoginOptions\<close> and the user service are
  declared in \<open>./definitions\<close>, which is not part of the sources. The module identifiers
  are the enumeration basic, twitter, facebook, github, google, instagram, linkedin,
  custom; the login options are \<open>{remember}\<close>; the user service has \<open>load()\<close> and
  \<open>current()\<close>, and the user \<open>store()\<close>, \<open>unstore()\<close> and \<open>clear()\<close>. The user service is
  kept as the outcome of \<open>load()\<close> and the list of the calls made on it and on its user,
  oldest first; the event emitter as the list of the events emitted, oldest first.
\<close>

datatype AuthModuleId =
  basic | custom | twitter | facebook | github | google | instagram | linkedin

record LoginOptions =
  remember :: "bool option"

datatype user_call = Load | Current | Store | Unstore | Clear

datatype IUser = CurrentUser

record ISingleUserService =
  load_result :: "unit promise"
  calls :: "user_call list"

record token_changed =
  old :: "string option"
  new :: "string option"

text \<open>
  A registered module is kept as its \<open>authenticate\<close>: the promise it returns for the
  login data. \<open>authToken\<close> is \<open>undefined\<close> until the first token is stored.
\<close>

record 'd Auth =
  emitter :: "(string \<times> token_changed) list"
  authModules :: "AuthModuleId \<rightharpoonup> ('d \<Rightarrow> string promise)"
  tokenContext :: CombinedAuthTokenContext
  userService :: ISingleUserService
  authToken :: "string option"

definition isAuthenticated :: "'d Auth \<Rightarrow> bool" where
  "isAuthenticated a =
     (let token = get (tokenContext a)
      in if truthy token then True else False)"

definition getToken :: "'d Auth \<Rightarrow> string option" where
  "getToken a = get (tokenContext a)"

text \<open>\<open>storeToken(options = {'remember': true}, token)\<close>.\<close>

definition storeToken :: "LoginOptions option \<Rightarrow> string \<Rightarrow> 'd Auth \<Rightarrow> 'd Auth" where
  "storeToken options token a =
     (let opts = (case options of None \<Rightarrow> \<lparr>remember = Some True\<rparr> | Some given \<Rightarrow> given);
          originalToken = authToken a;
          a1 = a\<lparr>authToken := Some token\<rparr>;
          a2 = a1\<lparr>tokenContext :=
                    store token (Some \<lparr>permanent = remember opts\<rparr>) (tokenContext a1)\<rparr>
      in a2\<lparr>emitter := emitter a2 @
                [(''auth:token-changed'', \<lparr>old = originalToken, new = authToken a2\<rparr>)]\<rparr>)"

definition user_calls :: "user_call list \<Rightarrow> 'd Auth \<Rightarrow> 'd Auth" where
  "user_calls cs a = a\<lparr>userService := (userService a)\<lparr>calls := calls (userService a) @ cs\<rparr>\<rparr>"

definition logout :: "'d Auth \<Rightarrow> 'd Auth" where
  "logout a = user_calls [Current, Unstore, Clear] (a\<lparr>tokenContext := delete (tokenContext a)\<rparr>)"

text \<open>
  \<open>login(moduleId, data, options = {'remember': true})\<close>. The result is \<open>Inl\<close> for an
  error thrown by the call itself and \<open>Inr\<close> for the promise the call returns, together
  with the state once the callbacks that can run have run.
\<close>

definition login ::
  "AuthModuleId \<Rightarrow> 'd \<Rightarrow> LoginOptions option \<Rightarrow> 'd Auth
     \<Rightarrow> (js_error + IUser promise) \<times> 'd Auth" where
  "login moduleId data options a =
     (let opts = (case options of None \<Rightarrow> \<lparr>remember = Some True\<rparr> | Some given \<Rightarrow> given)
      in case authModules a moduleId of
           None \<Rightarrow> (Inl (Error ''Authentication class is invalid or missing:undefined''), a)
         | Some authType \<Rightarrow>
             (case authType data of
                Pending \<Rightarrow> (Inr Pending, a)
              | Rejected e \<Rightarrow> (Inr (Rejected e), a)
              | Resolved token \<Rightarrow>
                  (let a1 = user_calls [Load] (storeToken (Some opts) token a)
                   in case load_result (userService a1) of
                        Pending \<Rightarrow> (Inr Pending, a1)
                      | Rejected e \<Rightarrow> (Inr (Rejected e), a1)
                      | Resolved u \<Rightarrow> (Inr (Resolved CurrentUser), user_calls [Current, Store] a1))))"

text \<open>
  \<open>getDetailedErrorFromResponse(res)\<close>: the \<open>try\<close> block covers only the reading of
  \<open>res.body.error.details\<close>; \<open>details.length\<close> is read after it.
\<close>

definition read_details :: "response option \<Rightarrow> js_error + error_detail list option" where
  "read_details res =
     (case res of
        None \<Rightarrow> Inl TypeError
      | Some r \<Rightarrow>
          (case res_body r of
             None \<Rightarrow> Inl TypeError
           | Some b \<Rightarrow>
               (case body_error b of
                  None \<Rightarrow> Inl TypeError
                | Some e \<Rightarrow> Inr (error_details e))))"

definition to_string :: "string option \<Rightarrow> string" where
  "to_string v = (case v of None \<Rightarrow> ''undefined'' | Some s \<Rightarrow> s)"

fun details_loop :: "error_detail list \<Rightarrow> string list \<Rightarrow> string list" where
  "details_loop [] errors = errors"
| "details_loop (detail # rest) errors =
     details_loop rest
       (if truthy (error_type detail)
        then errors @ [to_string (error_type detail) @ ''_'' @ to_string (parameter detail)]
        else errors)"

definition getDetailedErrorFromResponse :: "response option \<Rightarrow> js_error + js_error" where
  "getDetailedErrorFromResponse res =
     (let details = (case read_details res of Inl e \<Rightarrow> Some [] | Inr d \<Rightarrow> d)
      in case details of
           None \<Rightarrow> Inl TypeError
         | Some ds \<Rightarrow> Inr (DetailedError ''Error creating user'' (details_loop ds [])))"

section \<open>BasicAuth\<close>

text \<open>
  Modelled from the spec: the credentials \<open>BasicLoginCredentials\<close> (email and password,
  each possibly missing at run time), the config accessor \<open>get(key)\<close> and the HTTP client
  (request builder with method and path, \<open>send(body)\<close>, and \<open>end(callback(err, res))\<close>),
  all declared outside the sources. The client is the function from the request sent to
  the arguments of the completion callback: \<open>Inl err\<close> for an error, \<open>Inr res\<close> for a
  response.
\<close>

record BasicLoginCredentials =
  email :: "string option"
  password :: "string option"

record request =
  req_method :: string
  req_path :: string
  req_body :: "(string \<times> string option) list"

type_synonym IConfig = "string \<Rightarrow> string option"

type_synonym IClient = "request \<Rightarrow> js_error + response"

text \<open>
  What a call has done once its callback has run: the state of the promise it returned,
  the HTTP requests it issued, and the error its callback threw, if any (the promise is
  left pending then).
\<close>

record 'a outcome =
  promise :: "'a promise"
  requests :: "request list"
  uncaught :: "js_error option"

definition read_token :: "response \<Rightarrow> js_error + string option" where
  "read_token res =
     (case res_body res of
        None \<Rightarrow> Inl TypeError
      | Some b \<Rightarrow>
          (case body_data b of
             None \<Rightarrow> Inl TypeError
           | Some d \<Rightarrow> Inr (data_token d)))"

text \<open>The request \<open>authenticate\<close> sends: \<open>client.post('/auth/login').send({...})\<close>.\<close>

definition login_request :: "IConfig \<Rightarrow> BasicLoginCredentials \<Rightarrow> request" where
  "login_request config data =
     \<lparr>req_method = ''POST'', req_path = ''/auth/login'',
      req_body = [(''app_id'', config ''app_id''),
                  (''email'', email data),
                  (''password'', password data)]\<rparr>"

definition authenticate ::
  "IConfig \<Rightarrow> IClient \<Rightarrow> BasicLoginCredentials \<Rightarrow> string option outcome" where
  "authenticate config client data =
     (if \<not> truthy (email data) \<or> \<not> truthy (password data)
      then \<lparr>promise = Rejected (Error ''email and password are required for basic authentication''),
            requests = [], uncaught = None\<rparr>
      else
        (let req = login_request config data
         in case client req of
              Inl err \<Rightarrow> \<lparr>promise = Rejected err, requests = [req], uncaught = None\<rparr>
            | Inr res \<Rightarrow>
                (case read_token res of
                   Inl e \<Rightarrow> \<lparr>promise = Pending, requests = [req], uncaught = Some e\<rparr>
                 | Inr t \<Rightarrow> \<lparr>promise = Resolved t, requests = [req], uncaught = None\<rparr>)))"

section \<open>The in-app browser flow\<close>

text \<open>
  \<open>s.split(sep)\<close> for a separator of one character: the pieces between the separators,
  at least one. \<open>xs[i]\<close> is \<open>undefined\<close> beyond the end of the array. Strings are lists of
  bytes here; the separators and the expected prefix are ASCII, so a URL in UTF-8 is cut
  at the same places as the UTF-16 string of the source.
\<close>

fun js_split :: "char \<Rightarrow> string \<Rightarrow> string list" where
  "js_split sep [] = [ [] ]"
| "js_split sep (c # cs) =
     (if c = sep then [] # js_split sep cs
      else (case js_split sep cs of
              [] \<Rightarrow> [ [c] ]
            | piece # pieces \<Rightarrow> (c # piece) # pieces))"

definition js_index :: "'a list \<Rightarrow> nat \<Rightarrow> 'a option" where
  "js_index xs i = (if i < length xs then Some (xs ! i) else None)"

text \<open>
  The calls the event handlers make on the browser surface \<open>w\<close> and on the deferred
  promise, in order. \<open>RemoveEventListener name\<close> removes the handler the flow attached
  for \<open>name\<close>.
\<close>

datatype browser_call =
    RemoveEventListener string
  | Close
  | Resolve "string option"
  | Reject js_error

text \<open>
  The loop over \<open>paramParts\<close>, which assigns \<open>part[1]\<close> to the property \<open>part[0]\<close> of
  \<open>params\<close>. A parameter without \<open>=\<close> is set to \<open>undefined\<close>; a later parameter of the same
  name overwrites an earlier one. Only the property \<open>token\<close> is read afterwards, which no
  assignment to another name changes.
\<close>

fun params_loop :: "string list \<Rightarrow> (string \<rightharpoonup> string option) \<Rightarrow> (string \<rightharpoonup> string option)" where
  "params_loop [] params = params"
| "params_loop (paramPart # rest) params =
     (let part = js_split CHR ''='' paramPart
      in params_loop rest (params(to_string (js_index part 0) \<mapsto> js_index part 1)))"

definition params_get :: "(string \<rightharpoonup> string option) \<Rightarrow> string \<Rightarrow> string option" where
  "params_get params key = (case params key of None \<Rightarrow> None | Some v \<Rightarrow> v)"

definition onExit :: "browser_call list" where
  "onExit = [Reject (Error ''InAppBrowser exit'')]"

definition onLoadError :: "browser_call list" where
  "onLoadError = [Reject (Error ''InAppBrowser loaderror'')]"

text \<open>
  \<open>onLoadStart(data)\<close>, given \<open>data.url\<close>: \<open>Inl\<close> is the error the handler throws, \<open>Inr\<close> the
  calls it makes. \<open>queryString\<close> is \<open>undefined\<close> when the part of the URL before the first
  \<open>#\<close> has no \<open>?\<close>, and \<open>queryString.split\<close> throws then, before any call is made.
\<close>

definition onLoadStart :: "string \<Rightarrow> js_error + browser_call list" where
  "onLoadStart url =
     (if take 20 url = ''http://auth.ionic.io''
      then
        (case js_index (js_split CHR ''#'' url) 0 of
           None \<Rightarrow> Inl TypeError
         | Some beforeHash \<Rightarrow>
             (case js_index (js_split CHR ''?'' beforeHash) 1 of
                None \<Rightarrow> Inl TypeError
              | Some queryString \<Rightarrow>
                  (let paramParts = js_split CHR ''&'' queryString;
                       params = params_loop paramParts Map.empty
                   in Inr [RemoveEventListener ''exit'',
                           RemoveEventListener ''loaderror'',
                           Close,
                           Resolve (params_get params ''token'')])))
      else Inr [Reject (Error ''Unexpected url in API response'')])"

section \<open>The completion callback of signup\<close>

text \<open>
  \<open>err.response\<close>: only the error object of the HTTP client carries a response.
\<close>

definition error_response :: "js_error \<Rightarrow> response option" where
  "error_response err = (case err of TransportError res \<Rightarrow> res | _ \<Rightarrow> None)"

text \<open>
  The callback \<open>BasicAuth.signup\<close> passes to \<open>end\<close>, given the arguments \<open>(err, res)\<close> of
  the client: the state it leaves the deferred promise in, and the error it throws, if
  any. When \<open>getDetailedErrorFromResponse\<close> throws, the promise is never settled.
\<close>

definition signup_end :: "js_error + response \<Rightarrow> unit promise \<times> js_error option" where
  "signup_end reply =
     (case reply of
        Inl err \<Rightarrow>
          (case getDetailedErrorFromResponse (error_response err) of
             Inl e \<Rightarrow> (Pending, Some e)
           | Inr detailed \<Rightarrow> (Rejected detailed, None))
      | Inr res \<Rightarrow> (Resolved (), None))"

section \<open>Concrete instances\<close>

text \<open>
  An \<open>Auth\<close> over empty stores in which only the basic module is registered, a stub
  client that answers every request with the token \<open>abc\<close>, and one that fails.
\<close>

definition stub_auth :: "unit Auth" where
  "stub_auth =
     \<lparr>emitter = [],
      authModules = [basic \<mapsto> (\<lambda>data. Resolved ''abc'')],
      tokenContext = fresh_context ''auth'',
      userService = \<lparr>load_result = Resolved (), calls = []\<rparr>,
      authToken = None\<rparr>"

definition stub_config :: IConfig where
  "stub_config = [''app_id'' \<mapsto> ''app'']"

definition token_response :: response where
  "token_response =
     \<lparr>res_body = Some \<lparr>body_data = Some \<lparr>data_token = Some ''abc'', data_url = None\<rparr>,
                        body_error = None\<rparr>\<rparr>"

definition stub_client :: IClient where
  "stub_client = (\<lambda>req. Inr token_response)"

definition failing_client :: IClient where
  "failing_client = (\<lambda>req. Inl (TransportError None))"

definition details_response :: "error_detail list option \<Rightarrow> response" where
  "details_response ds =
     \<lparr>res_body = Some \<lparr>body_data = None, body_error = Some \<lparr>error_details = ds\<rparr>\<rparr>\<rparr>"

section \<open>Properties of the combined token context\<close>

lemmas ctx_defs = get_def store_def delete_def storage_get_def storage_set_def
  storage_delete_def truthy_def truthy_bool_def

lemma store_label: "label (store token options ctx) = label ctx"
  by (simp add: store_def Let_def)

lemma delete_label: "label (delete ctx) = label ctx"
  by (simp add: delete_def)

lemma get_delete: "get (delete ctx) = None"
  by (simp add: ctx_defs)

lemma store_default:
  "store token None ctx = store token (Some \<lparr>permanent = Some True\<rparr>) ctx"
  by (simp add: store_def)

lemma store_without_permanent:
  "store token (Some \<lparr>permanent = None\<rparr>) ctx
     = store token (Some \<lparr>permanent = Some False\<rparr>) ctx"
  by (simp add: store_def truthy_bool_def)

lemma delete_fresh_context: "delete (fresh_context l) = fresh_context l"
  by (simp add: delete_def fresh_context_def storage_delete_def)

subsection \<open>Reading: the ephemeral tier wins when its token is not empty\<close>

text \<open>
  C5, as stated: \<open>get()\<close> returns the ephemeral tier's value if present, else the durable
  tier's value. It fails for an ephemeral token that is present and empty: after storing
  durable \<open>T1\<close> and then ephemeral \<open>''\<close>, the ephemeral tier holds \<open>''\<close> and \<open>get()\<close>
  returns \<open>T1\<close>, since \<open>tempToken || permToken\<close> reads the empty string as false.
\<close>

theorem get_blank_ephemeral_counterexample:
  "storage_get (tempStorage blank_session_context) (label blank_session_context) = Some []
   \<and> storage_get (storage blank_session_context) (label blank_session_context) = Some ''T1''
   \<and> get blank_session_context = Some ''T1''
   \<and> get blank_session_context \<noteq> Some []"
  by (simp add: blank_session_context_def fresh_context_def ctx_defs)

text \<open>
  C5, amended: \<open>get()\<close> returns the ephemeral tier's value if it is present and not
  empty; otherwise (no ephemeral value, or the empty string) it returns what the durable
  tier holds, absent if it holds nothing. After storing durable \<open>T1\<close> and then a
  non-empty ephemeral \<open>T2\<close> for the same label, \<open>get()\<close> returns \<open>T2\<close>.
\<close>

theorem get_nonempty_ephemeral_wins:
  "(\<forall>t. storage_get (tempStorage ctx) (label ctx) = Some t \<and> t \<noteq> [] \<longrightarrow> get ctx = Some t)
   \<and> (storage_get (tempStorage ctx) (label ctx) = None
        \<or> storage_get (tempStorage ctx) (label ctx) = Some []
      \<longrightarrow> get ctx = storage_get (storage ctx) (label ctx))
   \<and> (T2 \<noteq> [] \<longrightarrow>
        get (store T2 (Some \<lparr>permanent = Some False\<rparr>)
              (store T1 (Some \<lparr>permanent = Some True\<rparr>) ctx)) = Some T2)"
  by (auto simp add: ctx_defs)

theorem get_nonempty_ephemeral_wins_witness:
  "storage_get (tempStorage session_context) (label session_context) = Some ''E''
   \<and> get session_context = Some ''E''
   \<and> storage_get (tempStorage (fresh_context ''auth'')) (label (fresh_context ''auth'')) = None
   \<and> get (fresh_context ''auth'') = None
   \<and> get (store ''T2'' (Some \<lparr>permanent = Some False\<rparr>)
            (store ''T1'' (Some \<lparr>permanent = Some True\<rparr>) (fresh_context ''auth''))) = Some ''T2''"
proof -
  have temp: "storage_get (tempStorage session_context) (label session_context) = Some ''E''"
    by (simp add: session_context_def fresh_context_def ctx_defs)
  have none: "storage_get (tempStorage (fresh_context ''auth'')) (label (fresh_context ''auth'')) = None"
    by (simp add: fresh_context_def ctx_defs)
  have perm: "storage_get (storage (fresh_context ''auth'')) (label (fresh_context ''auth'')) = None"
    by (simp add: fresh_context_def ctx_defs)
  from get_nonempty_ephemeral_wins [of session_context] temp
  have "get session_context = Some ''E''" by simp
  moreover from get_nonempty_ephemeral_wins [of "fresh_context ''auth''"] none perm
  have "get (fresh_context ''auth'') = None" by simp
  moreover from get_nonempty_ephemeral_wins [of "fresh_context ''auth''" "''T2''" "''T1''"]
  have "get (store ''T2'' (Some \<lparr>permanent = Some False\<rparr>)
            (store ''T1'' (Some \<lparr>permanent = Some True\<rparr>) (fresh_context ''auth''))) = Some ''T2''"
    by simp
  ultimately show ?thesis using temp none by simp
qed

subsection \<open>Storing durably, reading back, deleting\<close>

text \<open>
  C6, as stated: for all tokens \<open>T\<close>, \<open>store(T, permanent=true)\<close> followed by \<open>get()\<close>
  returns \<open>T\<close>. It fails on a context whose ephemeral tier already holds the token \<open>E\<close>:
  the durable write leaves that tier alone and \<open>get()\<close> still returns \<open>E\<close>.
\<close>

theorem store_permanent_get_counterexample:
  "get (store ''T'' (Some \<lparr>permanent = Some True\<rparr>) session_context) = Some ''E''
   \<and> get (store ''T'' (Some \<lparr>permanent = Some True\<rparr>) session_context) \<noteq> Some ''T''"
  by (simp add: session_context_def fresh_context_def ctx_defs)

text \<open>
  C6, amended: when the ephemeral tier holds no token for the label, or the empty
  string, \<open>store(T, permanent=true)\<close> followed by \<open>get()\<close> returns \<open>T\<close>. \<open>delete()\<close> removes
  the label from the durable and from the ephemeral tier whatever they hold, a later
  \<open>get()\<close> returns absent, and deleting twice is deleting once.
\<close>

theorem store_permanent_get_delete:
  "(storage_get (tempStorage ctx) (label ctx) = None
      \<or> storage_get (tempStorage ctx) (label ctx) = Some []
    \<longrightarrow> get (store T (Some \<lparr>permanent = Some True\<rparr>) ctx) = Some T)
   \<and> storage (delete ctx) = (storage ctx)(label ctx := None)
   \<and> tempStorage (delete ctx) = (tempStorage ctx)(label ctx := None)
   \<and> get (delete ctx) = None
   \<and> delete (delete ctx) = delete ctx"
  by (auto simp add: ctx_defs)

theorem store_permanent_get_delete_witness:
  "storage_get (tempStorage (fresh_context ''auth'')) (label (fresh_context ''auth'')) = None
   \<and> get (store ''T'' (Some \<lparr>permanent = Some True\<rparr>) (fresh_context ''auth'')) = Some ''T''
   \<and> get (delete session_context) = None
   \<and> delete (delete session_context) = delete session_context"
proof -
  have none: "storage_get (tempStorage (fresh_context ''auth'')) (label (fresh_context ''auth'')) = None"
    by (simp add: fresh_context_def ctx_defs)
  from store_permanent_get_delete [of "fresh_context ''auth''" "''T''"] none
  have "get (store ''T'' (Some \<lparr>permanent = Some True\<rparr>) (fresh_context ''auth'')) = Some ''T''"
    by simp
  with store_permanent_get_delete [of session_context] none show ?thesis by simp
qed

subsection \<open>Writing: one tier only\<close>


section \<open>Properties of Auth\<close>

lemma user_calls_fields:
  "emitter (user_calls cs a) = emitter a"
  "authModules (user_calls cs a) = authModules a"
  "tokenContext (user_calls cs a) = tokenContext a"
  "authToken (user_calls cs a) = authToken a"
  "calls (userService (user_calls cs a)) = calls (userService a) @ cs"
  "load_result (userService (user_calls cs a)) = load_result (userService a)"
  by (simp_all add: user_calls_def)

lemma storeToken_fields:
  "authToken (storeToken (Some options) token a) = Some token"
  "tokenContext (storeToken (Some options) token a)
     = store token (Some \<lparr>permanent = remember options\<rparr>) (tokenContext a)"
  "emitter (storeToken (Some options) token a)
     = emitter a @ [(''auth:token-changed'', \<lparr>old = authToken a, new = Some token\<rparr>)]"
  "userService (storeToken (Some options) token a) = userService a"
  "authModules (storeToken (Some options) token a) = authModules a"
  by (simp_all add: storeToken_def Let_def)

lemma storeToken_default:
  "storeToken None token a = storeToken (Some \<lparr>remember = Some True\<rparr>) token a"
  by (simp add: storeToken_def)

lemma login_default:
  "login moduleId data None a = login moduleId data (Some \<lparr>remember = Some True\<rparr>) a"
  by (simp add: login_def)

text \<open>
  Whatever \<open>load()\<close> does afterwards, a login whose module resolves a token leaves the
  state \<open>storeToken\<close> produces, up to calls on the user service.
\<close>

lemma login_resolved_state:
  assumes "authModules a moduleId = Some authType" and "authType data = Resolved token"
  shows "\<exists>cs. snd (login moduleId data (Some options) a)
           = user_calls cs (user_calls [Load] (storeToken (Some options) token a))"
proof (cases "load_result (userService a)")
  case Pending
  with assms have "snd (login moduleId data (Some options) a)
      = user_calls [] (user_calls [Load] (storeToken (Some options) token a))"
    by (simp add: login_def Let_def user_calls_fields storeToken_fields user_calls_def)
  then show ?thesis ..
next
  case (Resolved u)
  with assms have "snd (login moduleId data (Some options) a)
      = user_calls [Current, Store] (user_calls [Load] (storeToken (Some options) token a))"
    by (simp add: login_def Let_def user_calls_fields storeToken_fields)
  then show ?thesis ..
next
  case (Rejected e)
  with assms have "snd (login moduleId data (Some options) a)
      = user_calls [] (user_calls [Load] (storeToken (Some options) token a))"
    by (simp add: login_def Let_def user_calls_fields storeToken_fields user_calls_def)
  then show ?thesis ..
qed

text \<open>A login whose module rejects, or never settles, changes nothing and emits nothing.\<close>

lemma login_not_resolved_state:
  "authModules a moduleId = Some authType \<Longrightarrow> authType data = Rejected e \<Longrightarrow>
     login moduleId data options a = (Inr (Rejected e), a)"
  "authModules a moduleId = Some authType \<Longrightarrow> authType data = Pending \<Longrightarrow>
     login moduleId data options a = (Inr Pending, a)"
  by (simp_all add: login_def)

subsection \<open>storeToken\<close>

text \<open>
  C2: every call \<open>storeToken(options, token)\<close>, with the options given or left out,
  overwrites the cached token with the new one and appends exactly one
  \<open>auth:token-changed\<close> event whose \<open>old\<close> is the token cached before (absent before the
  first login) and whose \<open>new\<close> is the new token; the user service and the registered
  modules are untouched. It writes the new token into the combined token context with
  \<open>permanent = options.remember\<close>, and with \<open>permanent = true\<close>, the default
  \<open>{'remember': true}\<close>, when the options are left out. Every login whose module resolves
  a token, with the options given or left out, leaves exactly these effects on the
  cache, the token context and the emitter: it goes through \<open>storeToken\<close>.
\<close>

theorem storeToken_single_path:
  "authToken (storeToken opt token a) = Some token
   \<and> emitter (storeToken opt token a)
       = emitter a @ [(''auth:token-changed'', \<lparr>old = authToken a, new = Some token\<rparr>)]
   \<and> userService (storeToken opt token a) = userService a
   \<and> authModules (storeToken opt token a) = authModules a
   \<and> tokenContext (storeToken (Some options) token a)
       = store token (Some \<lparr>permanent = remember options\<rparr>) (tokenContext a)
   \<and> tokenContext (storeToken None token a)
       = store token (Some \<lparr>permanent = Some True\<rparr>) (tokenContext a)
   \<and> (authModules a moduleId = Some authType \<and> authType data = Resolved token \<longrightarrow>
        authToken (snd (login moduleId data opt a)) = Some token
        \<and> emitter (snd (login moduleId data opt a))
            = emitter a @ [(''auth:token-changed'', \<lparr>old = authToken a, new = Some token\<rparr>)]
        \<and> tokenContext (snd (login moduleId data opt a)) = tokenContext (storeToken opt token a)
        \<and> tokenContext (snd (login moduleId data (Some options) a))
            = store token (Some \<lparr>permanent = remember options\<rparr>) (tokenContext a)
        \<and> tokenContext (snd (login moduleId data None a))
            = store token (Some \<lparr>permanent = Some True\<rparr>) (tokenContext a))"
proof -
  have stored: "authToken (storeToken opt token a) = Some token
      \<and> emitter (storeToken opt token a)
          = emitter a @ [(''auth:token-changed'', \<lparr>old = authToken a, new = Some token\<rparr>)]
      \<and> userService (storeToken opt token a) = userService a
      \<and> authModules (storeToken opt token a) = authModules a"
    by (cases opt) (simp_all add: storeToken_fields storeToken_default)
  have written: "tokenContext (storeToken (Some options) token a)
        = store token (Some \<lparr>permanent = remember options\<rparr>) (tokenContext a)
      \<and> tokenContext (storeToken None token a)
        = store token (Some \<lparr>permanent = Some True\<rparr>) (tokenContext a)"
    by (simp add: storeToken_fields storeToken_default)
  {
    assume reg: "authModules a moduleId = Some authType"
      and res: "authType data = Resolved token"
    have through: "\<exists>cs. snd (login moduleId data given a)
          = user_calls cs (user_calls [Load] (storeToken given token a))" for given
    proof (cases given)
      case None
      with login_resolved_state [OF reg res, of "\<lparr>remember = Some True\<rparr>"]
      show ?thesis by (simp add: login_default storeToken_default)
    next
      case (Some given_options)
      with login_resolved_state [OF reg res, of given_options]
      show ?thesis by simp
    qed
    have same: "authToken (snd (login moduleId data given a)) = authToken (storeToken given token a)
        \<and> emitter (snd (login moduleId data given a)) = emitter (storeToken given token a)
        \<and> tokenContext (snd (login moduleId data given a))
            = tokenContext (storeToken given token a)" for given
    proof -
      from through [of given] obtain cs where "snd (login moduleId data given a)
          = user_calls cs (user_calls [Load] (storeToken given token a))" ..
      then show ?thesis by (simp add: user_calls_fields)
    qed
    from same [of opt] same [of "Some options"] same [of None] stored written
    have "authToken (snd (login moduleId data opt a)) = Some token
        \<and> emitter (snd (login moduleId data opt a))
            = emitter a @ [(''auth:token-changed'', \<lparr>old = authToken a, new = Some token\<rparr>)]
        \<and> tokenContext (snd (login moduleId data opt a)) = tokenContext (storeToken opt token a)
        \<and> tokenContext (snd (login moduleId data (Some options) a))
            = store token (Some \<lparr>permanent = remember options\<rparr>) (tokenContext a)
        \<and> tokenContext (snd (login moduleId data None a))
            = store token (Some \<lparr>permanent = Some True\<rparr>) (tokenContext a)"
      by simp
  }
  with stored written show ?thesis by blast
qed

theorem storeToken_single_path_witness:
  "authModules stub_auth basic = Some (\<lambda>data. Resolved ''abc'')
   \<and> fst (login basic () (Some \<lparr>remember = Some False\<rparr>) stub_auth) = Inr (Resolved CurrentUser)
   \<and> emitter (snd (login basic () (Some \<lparr>remember = Some False\<rparr>) stub_auth))
       = [(''auth:token-changed'', \<lparr>old = None, new = Some ''abc''\<rparr>)]
   \<and> authToken (snd (login basic () (Some \<lparr>remember = Some False\<rparr>) stub_auth)) = Some ''abc''
   \<and> tempStorage (tokenContext (snd (login basic () (Some \<lparr>remember = Some False\<rparr>) stub_auth)))
        ''auth'' = Some ''abc''
   \<and> storage (tokenContext (snd (login basic () (Some \<lparr>remember = Some False\<rparr>) stub_auth)))
        ''auth'' = None
   \<and> emitter (snd (login basic () None stub_auth))
       = [(''auth:token-changed'', \<lparr>old = None, new = Some ''abc''\<rparr>)]
   \<and> authToken (snd (login basic () None stub_auth)) = Some ''abc''
   \<and> storage (tokenContext (snd (login basic () None stub_auth))) ''auth'' = Some ''abc''
   \<and> tempStorage (tokenContext (snd (login basic () None stub_auth))) ''auth'' = None
   \<and> emitter (storeToken None ''def'' (storeToken None ''abc'' stub_auth))
       = [(''auth:token-changed'', \<lparr>old = None, new = Some ''abc''\<rparr>),
          (''auth:token-changed'', \<lparr>old = Some ''abc'', new = Some ''def''\<rparr>)]"
proof -
  have reg: "authModules stub_auth basic = Some (\<lambda>data. Resolved ''abc'')"
    by (simp add: stub_auth_def)
  have fresh: "emitter stub_auth = []" "authToken stub_auth = None"
    "tokenContext stub_auth = fresh_context ''auth''"
    by (simp_all add: stub_auth_def)
  have ret: "fst (login basic () (Some \<lparr>remember = Some False\<rparr>) stub_auth) = Inr (Resolved CurrentUser)"
    by (simp add: login_def stub_auth_def Let_def user_calls_def storeToken_def)
  from storeToken_single_path [where opt = "Some \<lparr>remember = Some False\<rparr>"
      and options = "\<lparr>remember = Some False\<rparr>" and token = "''abc''" and a = stub_auth
      and moduleId = basic and authType = "\<lambda>data. Resolved ''abc''" and data = "()"] reg fresh
  have session: "emitter (snd (login basic () (Some \<lparr>remember = Some False\<rparr>) stub_auth))
       = [(''auth:token-changed'', \<lparr>old = None, new = Some ''abc''\<rparr>)]
     \<and> authToken (snd (login basic () (Some \<lparr>remember = Some False\<rparr>) stub_auth)) = Some ''abc''
     \<and> tempStorage (tokenContext (snd (login basic () (Some \<lparr>remember = Some False\<rparr>) stub_auth)))
          ''auth'' = Some ''abc''
     \<and> storage (tokenContext (snd (login basic () (Some \<lparr>remember = Some False\<rparr>) stub_auth)))
          ''auth'' = None"
    by (simp add: fresh_context_def ctx_defs)
  from storeToken_single_path [where opt = None
      and options = "\<lparr>remember = Some False\<rparr>" and token = "''abc''" and a = stub_auth
      and moduleId = basic and authType = "\<lambda>data. Resolved ''abc''" and data = "()"] reg fresh
  have remembered: "emitter (snd (login basic () None stub_auth))
       = [(''auth:token-changed'', \<lparr>old = None, new = Some ''abc''\<rparr>)]
     \<and> authToken (snd (login basic () None stub_auth)) = Some ''abc''
     \<and> storage (tokenContext (snd (login basic () None stub_auth))) ''auth'' = Some ''abc''
     \<and> tempStorage (tokenContext (snd (login basic () None stub_auth))) ''auth'' = None"
    by (simp add: fresh_context_def ctx_defs)
  have first: "authToken (storeToken None ''abc'' stub_auth) = Some ''abc''
     \<and> emitter (storeToken None ''abc'' stub_auth)
         = [(''auth:token-changed'', \<lparr>old = None, new = Some ''abc''\<rparr>)]"
    using storeToken_single_path [where opt = None and token = "''abc''" and a = stub_auth] fresh
    by simp
  have twice: "emitter (storeToken None ''def'' (storeToken None ''abc'' stub_auth))
       = [(''auth:token-changed'', \<lparr>old = None, new = Some ''abc''\<rparr>),
          (''auth:token-changed'', \<lparr>old = Some ''abc'', new = Some ''def''\<rparr>)]"
    using storeToken_single_path [where opt = None and token = "''def''"
        and a = "storeToken None ''abc'' stub_auth"] first
    by simp
  from reg ret session remembered twice show ?thesis by simp
qed

subsection \<open>login with an unregistered module\<close>

text \<open>
  C3: for every module identifier that is not registered, \<open>login\<close> throws: the call
  itself fails with the error, no promise is returned (not even a rejected one), and the
  state is as before, so that nothing was stored, emitted or loaded.
\<close>

theorem login_unregistered_throws:
  "authModules a moduleId = None \<Longrightarrow>
     login moduleId data options a
       = (Inl (Error ''Authentication class is invalid or missing:undefined''), a)"
  by (simp add: login_def)

theorem login_unregistered_throws_witness:
  "authModules stub_auth twitter = None
   \<and> login twitter () None stub_auth
       = (Inl (Error ''Authentication class is invalid or missing:undefined''), stub_auth)"
proof -
  have unreg: "authModules stub_auth twitter = None"
    by (simp add: stub_auth_def)
  from login_unregistered_throws [OF unreg] unreg show ?thesis by simp
qed

subsection \<open>isAuthenticated\<close>

text \<open>
  C9: \<open>isAuthenticated()\<close> is true if and only if \<open>tokenContext.get()\<close> yields a token
  that is not empty; when it yields the empty string the answer is false. The answer
  depends on the token context alone (two states with the same token context agree), so
  no server is asked. After \<open>logout()\<close> it is false.
\<close>

theorem isAuthenticated_iff_nonempty_token:
  "(isAuthenticated a \<longleftrightarrow> (\<exists>t. get (tokenContext a) = Some t \<and> t \<noteq> []))
   \<and> (get (tokenContext a) = Some [] \<longrightarrow> \<not> isAuthenticated a)
   \<and> (tokenContext a = tokenContext b \<longrightarrow> isAuthenticated a = isAuthenticated b)
   \<and> \<not> isAuthenticated (logout a)"
  by (auto simp add: isAuthenticated_def logout_def user_calls_def Let_def truthy_def get_delete
      split: option.splits)

theorem isAuthenticated_iff_nonempty_token_witness:
  "get (tokenContext (storeToken None [] stub_auth)) = Some []
   \<and> \<not> isAuthenticated (storeToken None [] stub_auth)
   \<and> isAuthenticated (storeToken None ''abc'' stub_auth)
   \<and> tokenContext (user_calls [Load] stub_auth) = tokenContext stub_auth
   \<and> isAuthenticated (user_calls [Load] stub_auth) = isAuthenticated stub_auth"
proof -
  have e: "get (tokenContext (storeToken None [] stub_auth)) = Some []"
    by (simp add: storeToken_def stub_auth_def fresh_context_def ctx_defs)
  have t: "get (tokenContext (storeToken None ''abc'' stub_auth)) = Some ''abc''"
    by (simp add: storeToken_def stub_auth_def fresh_context_def ctx_defs)
  have u: "tokenContext (user_calls [Load] stub_auth) = tokenContext stub_auth"
    by (simp add: user_calls_def)
  from isAuthenticated_iff_nonempty_token
    [where a = "storeToken None [] stub_auth" and b = stub_auth] e
  have "\<not> isAuthenticated (storeToken None [] stub_auth)" by simp
  moreover from isAuthenticated_iff_nonempty_token
    [where a = "storeToken None ''abc'' stub_auth" and b = stub_auth] t
  have "isAuthenticated (storeToken None ''abc'' stub_auth)" by simp
  moreover from isAuthenticated_iff_nonempty_token
    [where a = "user_calls [Load] stub_auth" and b = stub_auth] u
  have "isAuthenticated (user_calls [Load] stub_auth) = isAuthenticated stub_auth" by blast
  ultimately show ?thesis using e u by simp
qed

subsection \<open>logout\<close>

text \<open>
  C10: \<open>logout()\<close> deletes the token from the combined token context and unstores and
  clears the current user, emits nothing, and leaves the cached \<open>authToken\<close> as it was.
  So when \<open>T1\<close> is stored, then \<open>logout()\<close> is called, then \<open>T2\<close> is stored, the event for
  \<open>T2\<close> carries \<open>old = T1\<close>, not absent.
\<close>

theorem logout_keeps_authToken:
  "authToken (logout a) = authToken a
   \<and> tokenContext (logout a) = delete (tokenContext a)
   \<and> calls (userService (logout a)) = calls (userService a) @ [Current, Unstore, Clear]
   \<and> emitter (logout a) = emitter a
   \<and> emitter (storeToken o2 T2 (logout (storeToken o1 T1 a)))
       = emitter a @ [(''auth:token-changed'', \<lparr>old = authToken a, new = Some T1\<rparr>),
                      (''auth:token-changed'', \<lparr>old = Some T1, new = Some T2\<rparr>)]"
  by (simp add: logout_def user_calls_def storeToken_def Let_def)

section \<open>Properties of BasicAuth.authenticate\<close>

lemma authenticate_missing:
  "\<not> truthy (email data) \<or> \<not> truthy (password data) \<Longrightarrow>
     authenticate config client data
       = \<lparr>promise = Rejected (Error ''email and password are required for basic authentication''),
          requests = [], uncaught = None\<rparr>"
  by (simp add: authenticate_def)

lemma authenticate_requests:
  "truthy (email data) \<and> truthy (password data) \<Longrightarrow>
     requests (authenticate config client data) = [login_request config data]"
  by (simp add: authenticate_def Let_def split: sum.splits)

lemma authenticate_rejected:
  "truthy (email data) \<and> truthy (password data) \<Longrightarrow>
   client (login_request config data) = Inl err \<Longrightarrow>
     promise (authenticate config client data) = Rejected err"
  by (simp add: authenticate_def Let_def)

lemma authenticate_resolved:
  "truthy (email data) \<and> truthy (password data) \<Longrightarrow>
   client (login_request config data) = Inr res \<Longrightarrow>
   res_body res = Some b \<Longrightarrow> body_data b = Some d \<Longrightarrow>
     promise (authenticate config client data) = Resolved (data_token d)"
  by (simp add: authenticate_def read_token_def Let_def)

text \<open>
  C4: when \<open>data.email\<close> or \<open>data.password\<close> is missing or the empty string,
  \<open>authenticate\<close> rejects at once with the validation error and issues no HTTP request.
  When both are present it issues exactly one request, a POST to \<open>/auth/login\<close> carrying
  the app id, the email and the password; it rejects with the error of the client when
  the request fails, and resolves with \<open>res.body.data.token\<close> when the client answers with
  a response that has \<open>body.data\<close>.
\<close>

theorem authenticate_validates_then_posts:
  "(email data = None \<or> email data = Some [] \<or> password data = None \<or> password data = Some []
      \<longrightarrow> authenticate config client data
            = \<lparr>promise = Rejected (Error ''email and password are required for basic authentication''),
               requests = [], uncaught = None\<rparr>)
   \<and> ((\<exists>e. email data = Some e \<and> e \<noteq> []) \<and> (\<exists>p. password data = Some p \<and> p \<noteq> [])
      \<longrightarrow> requests (authenticate config client data)
            = [\<lparr>req_method = ''POST'', req_path = ''/auth/login'',
                req_body = [(''app_id'', config ''app_id''), (''email'', email data),
                            (''password'', password data)]\<rparr>]
          \<and> (\<forall>err. client (login_request config data) = Inl err
                \<longrightarrow> promise (authenticate config client data) = Rejected err)
          \<and> (\<forall>res b d. client (login_request config data) = Inr res
                  \<and> res_body res = Some b \<and> body_data b = Some d
                \<longrightarrow> promise (authenticate config client data) = Resolved (data_token d)))"
proof -
  have missing: "email data = None \<or> email data = Some [] \<or> password data = None
        \<or> password data = Some [] \<longrightarrow> \<not> truthy (email data) \<or> \<not> truthy (password data)"
    by (auto simp add: truthy_def)
  have present: "(\<exists>e. email data = Some e \<and> e \<noteq> []) \<and> (\<exists>p. password data = Some p \<and> p \<noteq> [])
        \<longrightarrow> truthy (email data) \<and> truthy (password data)"
    by (auto simp add: truthy_def)
  from missing present show ?thesis
    using authenticate_missing [of data config client]
      authenticate_requests [of data config client]
      authenticate_rejected [of data client config]
      authenticate_resolved [of data client config]
    by (simp add: login_request_def)
qed

theorem authenticate_validates_then_posts_witness:
  "authenticate stub_config stub_client \<lparr>email = Some [], password = Some ''x''\<rparr>
     = \<lparr>promise = Rejected (Error ''email and password are required for basic authentication''),
        requests = [], uncaught = None\<rparr>
   \<and> requests (authenticate stub_config stub_client \<lparr>email = Some ''a@b.com'', password = Some ''p''\<rparr>)
       = [\<lparr>req_method = ''POST'', req_path = ''/auth/login'',
           req_body = [(''app_id'', Some ''app''), (''email'', Some ''a@b.com''),
                       (''password'', Some ''p'')]\<rparr>]
   \<and> promise (authenticate stub_config stub_client \<lparr>email = Some ''a@b.com'', password = Some ''p''\<rparr>)
       = Resolved (Some ''abc'')
   \<and> promise (authenticate stub_config failing_client \<lparr>email = Some ''a@b.com'', password = Some ''p''\<rparr>)
       = Rejected (TransportError None)"
proof -
  let ?bad = "\<lparr>email = Some [], password = Some ''x''\<rparr>"
  let ?good = "\<lparr>email = Some ''a@b.com'', password = Some ''p''\<rparr>"
  have reply: "stub_client (login_request stub_config ?good) = Inr token_response"
    by (simp add: stub_client_def)
  have shape: "res_body token_response
        = Some \<lparr>body_data = Some \<lparr>data_token = Some ''abc'', data_url = None\<rparr>, body_error = None\<rparr>"
    by (simp add: token_response_def)
  have fail: "failing_client (login_request stub_config ?good) = Inl (TransportError None)"
    by (simp add: failing_client_def)
  have app: "stub_config ''app_id'' = Some ''app''"
    by (simp add: stub_config_def)
  from authenticate_validates_then_posts [of ?bad stub_config stub_client]
  have 1: "authenticate stub_config stub_client ?bad
     = \<lparr>promise = Rejected (Error ''email and password are required for basic authentication''),
        requests = [], uncaught = None\<rparr>"
    by simp
  from authenticate_validates_then_posts [of ?good stub_config stub_client] app
  have 2: "requests (authenticate stub_config stub_client ?good)
       = [\<lparr>req_method = ''POST'', req_path = ''/auth/login'',
           req_body = [(''app_id'', Some ''app''), (''email'', Some ''a@b.com''),
                       (''password'', Some ''p'')]\<rparr>]"
    by simp
  from authenticate_validates_then_posts [of ?good stub_config stub_client] reply shape
  have 3: "promise (authenticate stub_config stub_client ?good) = Resolved (Some ''abc'')"
    by simp
  from authenticate_validates_then_posts [of ?good stub_config failing_client] fail
  have 4: "promise (authenticate stub_config failing_client ?good) = Rejected (TransportError None)"
    by simp
  from 1 2 3 4 show ?thesis by simp
qed

section \<open>Properties of getDetailedErrorFromResponse\<close>

text \<open>
  When the response, its body or the body's \<open>error\<close> is missing, the read inside the
  \<open>try\<close> block throws, the default \<open>[]\<close> stays, and the code list is empty.
\<close>

lemma read_details_absent:
  "read_details None = Inl TypeError"
  "read_details (Some \<lparr>res_body = None\<rparr>) = Inl TypeError"
  "read_details (Some \<lparr>res_body = Some \<lparr>body_data = d, body_error = None\<rparr>\<rparr>) = Inl TypeError"
  by (simp_all add: read_details_def)

lemma getDetailedErrorFromResponse_absent:
  "read_details res = Inl e \<Longrightarrow>
     getDetailedErrorFromResponse res = Inr (DetailedError ''Error creating user'' [])"
  by (simp add: getDetailedErrorFromResponse_def)

lemma getDetailedErrorFromResponse_details:
  "getDetailedErrorFromResponse (Some (details_response (Some ds)))
     = Inr (DetailedError ''Error creating user'' (details_loop ds []))"
  by (simp add: getDetailedErrorFromResponse_def read_details_def details_response_def)

text \<open>The details \<open>[{error_type: 'required', parameter: 'email'}]\<close> give \<open>['required_email']\<close>.\<close>

lemma getDetailedErrorFromResponse_required_email:
  "getDetailedErrorFromResponse
     (Some (details_response (Some [\<lparr>error_type = Some ''required'', parameter = Some ''email''\<rparr>])))
     = Inr (DetailedError ''Error creating user'' [''required_email''])"
  by (simp add: getDetailedErrorFromResponse_details truthy_def to_string_def)

lemma signup_end_required_email:
  "signup_end (Inl (TransportError
     (Some (details_response (Some [\<lparr>error_type = Some ''required'', parameter = Some ''email''\<rparr>])))))
     = (Rejected (DetailedError ''Error creating user'' [''required_email'']), None)"
  by (simp add: signup_end_def error_response_def getDetailedErrorFromResponse_required_email)

text \<open>
  The function throws exactly when \<open>res.body.error\<close> is there and its \<open>details\<close> is not:
  the read in the \<open>try\<close> block succeeds with \<open>undefined\<close>, which replaces the default \<open>[]\<close>.
\<close>

lemma getDetailedErrorFromResponse_throws_iff:
  "(getDetailedErrorFromResponse res = Inl TypeError) = (read_details res = Inr None)"
  by (auto simp add: getDetailedErrorFromResponse_def split: sum.splits option.splits)

lemma signup_end_missing_details:
  "signup_end (Inl (TransportError (Some (details_response None)))) = (Pending, Some TypeError)"
  by (simp add: signup_end_def error_response_def getDetailedErrorFromResponse_def
      read_details_def details_response_def)

text \<open>
  C8, at the response \<open>{body: {error: {}}}\<close>, a malformed error body without \<open>details\<close>:
  the claim asks for a structured error with an empty code list; the code throws a
  TypeError when it reads \<open>details.length\<close>.
\<close>

theorem getDetailedErrorFromResponse_missing_details:
  "getDetailedErrorFromResponse (Some (details_response None)) = Inl TypeError"
  by (simp add: getDetailedErrorFromResponse_def read_details_def details_response_def)

section \<open>Properties of the in-app browser flow\<close>

lemma js_split_nonempty: "js_split sep s \<noteq> []"
  by (induction s) (auto split: list.splits)

lemma length_js_split: "length (js_split sep s) = Suc (length (filter (\<lambda>c. c = sep) s))"
  by (induction s) (auto split: list.splits simp: js_split_nonempty)

lemma hd_js_split: "js_index (js_split sep s) 0 = Some (takeWhile (\<lambda>c. c \<noteq> sep) s)"
  by (induction s) (auto simp: js_index_def js_split_nonempty split: list.splits)

lemma js_index_1: "(js_index (js_split sep s) 1 = None) = (sep \<notin> set s)"
  by (auto simp: js_index_def length_js_split filter_empty_conv)

text \<open>A URL that does not start with the expected prefix: one call, the rejection.\<close>

lemma onLoadStart_unexpected:
  "take 20 url \<noteq> ''http://auth.ionic.io'' \<Longrightarrow>
     onLoadStart url = Inr [Reject (Error ''Unexpected url in API response'')]"
  by (simp add: onLoadStart_def)

text \<open>
  The handler throws exactly on the URLs that start with the expected prefix and have no
  \<open>?\<close> before the first \<open>#\<close>.
\<close>

lemma onLoadStart_throws_iff:
  "(onLoadStart url = Inl e) =
     (e = TypeError \<and> take 20 url = ''http://auth.ionic.io''
      \<and> CHR ''?'' \<notin> set (takeWhile (\<lambda>c. c \<noteq> CHR ''#'') url))"
  by (auto simp add: onLoadStart_def hd_js_split js_index_1 [symmetric] Let_def
      split: option.splits)

text \<open>
  On every other URL with the expected prefix it removes the \<open>exit\<close> and the \<open>loaderror\<close>
  listener once each, closes the surface once, and resolves, in this order.
\<close>

lemma onLoadStart_redirect:
  assumes "take 20 url = ''http://auth.ionic.io''"
    and "CHR ''?'' \<in> set (takeWhile (\<lambda>c. c \<noteq> CHR ''#'') url)"
  shows "\<exists>v. onLoadStart url
           = Inr [RemoveEventListener ''exit'', RemoveEventListener ''loaderror'', Close, Resolve v]"
proof -
  let ?before = "takeWhile (\<lambda>c. c \<noteq> CHR ''#'') url"
  from assms(2) have "js_index (js_split CHR ''?'' ?before) 1 \<noteq> None"
    using js_index_1 [of "CHR ''?''" ?before] by blast
  then obtain q where "js_index (js_split CHR ''?'' ?before) 1 = Some q"
    by blast
  with assms(1) show ?thesis
    by (simp add: onLoadStart_def hd_js_split Let_def)
qed

lemma onLoadStart_token:
  "onLoadStart ''http://auth.ionic.io/callback?token=xyz''
     = Inr [RemoveEventListener ''exit'', RemoveEventListener ''loaderror'', Close,
            Resolve (Some ''xyz'')]"
  by (simp add: onLoadStart_def js_index_def params_get_def to_string_def Let_def)

text \<open>Only \<open>onLoadStart\<close> on a URL with the expected prefix closes the surface.\<close>

lemma close_only_on_redirect:
  "Close \<notin> set onExit" "Close \<notin> set onLoadError"
  "onLoadStart url = Inr cs \<Longrightarrow> Close \<in> set cs \<Longrightarrow> take 20 url = ''http://auth.ionic.io''"
  by (auto simp add: onExit_def onLoadError_def onLoadStart_def split: if_splits)

text \<open>
  C1, at the \<open>loadstart\<close> event with URL \<open>http://auth.ionic.io/\<close>, which matches the
  expected prefix and has no query string: the claim asks for the listeners to be
  detached, the surface closed once and the promise resolved with the \<open>token\<close>
  parameter; the handler throws a TypeError at \<open>queryString.split('&')\<close> and makes none
  of these calls.
\<close>

theorem onLoadStart_without_query_throws:
  "take 20 ''http://auth.ionic.io/'' = ''http://auth.ionic.io''
   \<and> onLoadStart ''http://auth.ionic.io/'' = Inl TypeError"
  by (simp add: onLoadStart_def js_index_def)

end
